theory Spec2Isabelle
  imports Main "HOL-Library.Sublist" "HOL-Library.AList"
begin

section \<open>JavaScript string primitives used by the middleware\<close>

text \<open>
  Paths, methods and header values are JavaScript strings. A request path
  (\<open>request.nextUrl.pathname\<close>) is percent-encoded, so its code units are ASCII and
  a list of 8-bit characters represents it exactly.
\<close>

text \<open>\<open>s.startsWith(r)\<close>.\<close>

definition startsWith :: "string \<Rightarrow> string \<Rightarrow> bool" where
  "startsWith s r = prefix r s"

text \<open>
  \<open>s.split(sep)\<close> for a one-character separator: the pieces between the
  occurrences of \<open>sep\<close>, in order. The result is never empty
  (\<open>''''.split(sep)\<close> is the one-element array holding the empty string; lemma
  \<open>split_nonempty\<close>), so \<open>hd\<close> and \<open>tl\<close> below are applied to a non-empty list.
\<close>

fun split :: "char \<Rightarrow> string \<Rightarrow> string list" where
  "split sep [] = [[]]"
| "split sep (c # cs) =
     (let r = split sep cs in if c = sep then [] # r else (c # hd r) # tl r)"

text \<open>\<open>a[i]\<close> on an array: \<open>undefined\<close> (here \<open>None\<close>) out of range.\<close>

definition at_index :: "'a list \<Rightarrow> nat \<Rightarrow> 'a option" where
  "at_index xs i = (if i < length xs then Some (xs ! i) else None)"

text \<open>\<open>a.pop()\<close>, the value it returns: the last element, \<open>undefined\<close> on an empty array.\<close>

definition pop :: "'a list \<Rightarrow> 'a option" where
  "pop xs = (if xs = [] then None else Some (last xs))"

text \<open>
  \<open>n.toString()\<close> for an integer \<open>n\<close> (user and library ids are database
  integers): decimal digits, most significant first, with a leading minus sign for a
  negative number.
\<close>

definition digit_char :: "nat \<Rightarrow> char" where
  "digit_char d = char_of (48 + d)"

function digits :: "nat \<Rightarrow> string" where
  "digits n = (if n < 10 then [digit_char n] else digits (n div 10) @ [digit_char (n mod 10)])"
  by pat_completeness auto
termination
  by (relation "measure (\<lambda>n. n)") auto

declare digits.simps [simp del]

definition toString :: "int \<Rightarrow> string" where
  "toString i = (if i < 0 then CHR ''-'' # digits (nat (- i)) else digits (nat i))"

section \<open>Regular expressions of the permission table\<close>

text \<open>
  The patterns of the table are regular-expression literals built from literal
  characters, the dot, alternation, grouping and the star. \<open>RNone\<close> (no string) only
  arises as a derivative. The dot of a pattern without the \<open>s\<close> flag matches every
  character except the line terminators; of those, line feed and carriage return are
  the ones an 8-bit character can be.
\<close>

datatype regexp =
    RNone
  | REps
  | RChr char
  | RDot
  | RSeq regexp regexp
  | RAlt regexp regexp
  | RStar regexp

definition line_terminator :: "char \<Rightarrow> bool" where
  "line_terminator c = (c = CHR 0x0A \<or> c = CHR 0x0D)"

fun nullable :: "regexp \<Rightarrow> bool" where
  "nullable RNone = False"
| "nullable REps = True"
| "nullable (RChr c) = False"
| "nullable RDot = False"
| "nullable (RSeq r s) = (nullable r \<and> nullable s)"
| "nullable (RAlt r s) = (nullable r \<or> nullable s)"
| "nullable (RStar r) = True"

text \<open>\<open>deriv c r\<close> matches \<open>w\<close> exactly when \<open>r\<close> matches \<open>c # w\<close>.\<close>

fun deriv :: "char \<Rightarrow> regexp \<Rightarrow> regexp" where
  "deriv c RNone = RNone"
| "deriv c REps = RNone"
| "deriv c (RChr d) = (if c = d then REps else RNone)"
| "deriv c RDot = (if line_terminator c then RNone else REps)"
| "deriv c (RSeq r s) =
     (if nullable r then RAlt (RSeq (deriv c r) s) (deriv c s) else RSeq (deriv c r) s)"
| "deriv c (RAlt r s) = RAlt (deriv c r) (deriv c s)"
| "deriv c (RStar r) = RSeq (deriv c r) (RStar r)"

text \<open>
  \<open>/^r/.test(s)\<close>: every pattern of the table starts with \<open>^\<close> and carries no flag,
  so a match starts at index 0 and may end anywhere: \<open>r\<close> matches some initial
  segment of \<open>s\<close>.
\<close>

fun rx_test :: "regexp \<Rightarrow> string \<Rightarrow> bool" where
  "rx_test r [] = nullable r"
| "rx_test r (c # cs) = (nullable r \<or> rx_test (deriv c r) cs)"

text \<open>A run of literal characters, as written in a pattern.\<close>

fun lit :: "string \<Rightarrow> regexp" where
  "lit [] = REps"
| "lit (c # cs) = RSeq (RChr c) (lit cs)"

text \<open>The denotation of a pattern, against which the matcher is validated.\<close>

definition conc :: "string set \<Rightarrow> string set \<Rightarrow> string set" where
  "conc A B = {u @ v | u v. u \<in> A \<and> v \<in> B}"

inductive_set star :: "string set \<Rightarrow> string set" for A :: "string set" where
  star_nil: "[] \<in> star A"
| star_step: "u \<in> A \<Longrightarrow> v \<in> star A \<Longrightarrow> u @ v \<in> star A"

fun lang :: "regexp \<Rightarrow> string set" where
  "lang RNone = {}"
| "lang REps = {[]}"
| "lang (RChr c) = {[c]}"
| "lang RDot = {[c] | c. \<not> line_terminator c}"
| "lang (RSeq r s) = conc (lang r) (lang s)"
| "lang (RAlt r s) = lang r \<union> lang s"
| "lang (RStar r) = star (lang r)"

section \<open>The permission table (src/middleware.ts)\<close>

datatype UserRole = ADMIN | MANAGER | CLIENT | DELIVERY

text \<open>The type \<open>string | RegExp\<close> of a rule's \<open>path\<close>.\<close>

datatype rule_path = Str string | Rx regexp

record rule =
  rule_path :: rule_path
  methods :: "string list option"

definition api_any :: regexp where
  "api_any = RSeq (lit ''/api/'') (RStar RDot)"

definition api_libraries :: regexp where
  "api_libraries = RSeq (lit ''/api/libraries/'') (RStar RDot)"

definition api_books :: regexp where
  "api_books = RSeq (lit ''/api/books/'') (RStar RDot)"

definition api_loans_reservations_penalties :: regexp where
  "api_loans_reservations_penalties =
     RSeq (lit ''/api/'')
       (RSeq (RAlt (lit ''loans'') (RAlt (lit ''reservations'') (lit ''penalties'')))
         (RSeq (RChr CHR ''/'') (RStar RDot)))"

definition permissions :: "(UserRole \<times> rule list) list" where
  "permissions =
    [(ADMIN,
       [\<lparr>rule_path = Rx api_any, methods = Some [''GET'', ''POST'', ''PATCH'', ''DELETE'']\<rparr>]),
     (MANAGER,
       [\<lparr>rule_path = Rx api_libraries, methods = Some [''GET'', ''PATCH'']\<rparr>,
        \<lparr>rule_path = Str ''/api/users'', methods = Some [''GET'']\<rparr>,
        \<lparr>rule_path = Rx api_books, methods = Some [''GET'', ''POST'', ''PATCH'', ''DELETE'']\<rparr>,
        \<lparr>rule_path = Rx api_loans_reservations_penalties,
           methods = Some [''GET'', ''POST'', ''PATCH'']\<rparr>]),
     (CLIENT,
       [\<lparr>rule_path = Str ''/api/users/me'', methods = Some [''GET'', ''PATCH'']\<rparr>,
        \<lparr>rule_path = Str ''/api/books'', methods = Some [''GET'']\<rparr>,
        \<lparr>rule_path = Str ''/api/reservations'', methods = Some [''GET'', ''POST'', ''DELETE'']\<rparr>,
        \<lparr>rule_path = Str ''/api/feedbacks'', methods = Some [''GET'', ''POST'']\<rparr>]),
     (DELIVERY,
       [\<lparr>rule_path = Str ''/api/sales'', methods = Some [''GET'', ''PATCH'']\<rparr>,
        \<lparr>rule_path = Str ''/api/users/me'', methods = Some [''GET'']\<rparr>])]"

text \<open>The body of the callback given to \<open>some\<close>.\<close>

definition rule_matches :: "string \<Rightarrow> string \<Rightarrow> rule \<Rightarrow> bool" where
  "rule_matches path method rule =
     (let pathMatches = (case rule_path rule of
                           Str s \<Rightarrow> path = s
                         | Rx r \<Rightarrow> rx_test r path);
          methodMatches = (case methods rule of
                             None \<Rightarrow> True
                           | Some ms \<Rightarrow> List.member ms method)
      in pathMatches \<and> methodMatches)"

text \<open>\<open>permissions[role]?.some(...) ?? false\<close>.\<close>

definition hasPermission :: "UserRole \<Rightarrow> string \<Rightarrow> string \<Rightarrow> bool" where
  "hasPermission role path method =
     (case map_of permissions role of
        None \<Rightarrow> False
      | Some rules \<Rightarrow> list_ex (rule_matches path method) rules)"

text \<open>
  The cookie-based variant of the middleware (src/unnamed/part_008) declares its own
  table and its own \<open>hasPermission\<close>.
\<close>

definition cookie_permissions :: "(UserRole \<times> rule list) list" where
  "cookie_permissions =
    [(ADMIN,
       [\<lparr>rule_path = Rx api_any, methods = Some [''GET'', ''POST'', ''PATCH'', ''DELETE'']\<rparr>]),
     (MANAGER,
       [\<lparr>rule_path = Rx api_libraries, methods = Some [''GET'', ''PATCH'']\<rparr>,
        \<lparr>rule_path = Str ''/api/users'', methods = Some [''GET'']\<rparr>,
        \<lparr>rule_path = Rx api_books, methods = Some [''GET'', ''POST'', ''PATCH'', ''DELETE'']\<rparr>,
        \<lparr>rule_path = Rx api_loans_reservations_penalties,
           methods = Some [''GET'', ''POST'', ''PATCH'']\<rparr>]),
     (CLIENT,
       [\<lparr>rule_path = Str ''/api/users/me'', methods = Some [''GET'', ''PATCH'']\<rparr>,
        \<lparr>rule_path = Str ''/api/books'', methods = Some [''GET'']\<rparr>,
        \<lparr>rule_path = Str ''/api/reservations'', methods = Some [''GET'', ''POST'', ''DELETE'']\<rparr>,
        \<lparr>rule_path = Str ''/api/feedbacks'', methods = Some [''GET'', ''POST'']\<rparr>]),
     (DELIVERY,
       [\<lparr>rule_path = Str ''/api/sales'', methods = Some [''GET'', ''PATCH'']\<rparr>,
        \<lparr>rule_path = Str ''/api/users/me'', methods = Some [''GET'']\<rparr>])]"

definition cookie_hasPermission :: "UserRole \<Rightarrow> string \<Rightarrow> string \<Rightarrow> bool" where
  "cookie_hasPermission role path method =
     (case map_of cookie_permissions role of
        None \<Rightarrow> False
      | Some rules \<Rightarrow> list_ex (rule_matches path method) rules)"

section \<open>Public routes of the two variants\<close>

definition publicRoutes :: "string list" where
  "publicRoutes =
     [''/api/auth/login'', ''/api/auth/register'', ''/api/auth/signin'',
      ''/api/auth/callback'', ''/api/auth/providers'', ''/api/auth/session'',
      ''/api/auth/csrf'', ''/api/auth/debug'']"

text \<open>\<open>publicRoutes.some(route => path.startsWith(route))\<close> (src/middleware.ts).\<close>

definition is_public :: "string \<Rightarrow> bool" where
  "is_public path = list_ex (\<lambda>route. startsWith path route) publicRoutes"

definition cookie_publicRoutes :: "string list" where
  "cookie_publicRoutes = [''/api/auth/login'', ''/api/auth/register'']"

text \<open>\<open>publicRoutes.includes(path)\<close> (src/unnamed/part_008).\<close>

definition cookie_is_public :: "string \<Rightarrow> bool" where
  "cookie_is_public path = List.member cookie_publicRoutes path"

section \<open>Sessions, requests and responses\<close>

text \<open>
  A row of the session table joined with the selected fields of its user, as
  \<open>findUnique\<close> with \<open>include: { user: { select: ... } }\<close> returns it. \<open>expires\<close>
  is a \<open>Date\<close>, held as its time value in milliseconds.
\<close>

record user =
  user_id :: int
  user_role :: UserRole
  libraryId :: "int option"

record session =
  session_id :: string
  sessionToken :: string
  expires :: int
  session_user :: user

type_synonym store = "session list"

text \<open>
  What the middleware reads from outside the request and the session table: the three
  clock readings it takes, in program order (\<open>new Date()\<close> at the expiry test,
  \<open>Date.now()\<close> at the renewal test, \<open>new Date()\<close> for the new expiry), the local
  time zone adjustment of the process, and whether the database client throws on the
  lookup or on the write.

  \<open>localTZA env t isUTC\<close> is the offset of local time from UTC in milliseconds, as
  the language standard names it: for the instant \<open>t\<close> when \<open>isUTC\<close> is true, and
  for the local time value \<open>t\<close> when it is false. It is constant 0 in a process that
  runs in UTC and changes by an hour at a daylight-saving transition elsewhere.
\<close>

record env =
  now_at_expiry_check :: int
  now_at_renewal_check :: int
  now_at_renewal :: int
  localTZA :: "int \<Rightarrow> bool \<Rightarrow> int"
  findUnique_throws :: bool
  update_throws :: bool

datatype error = StoreFailure | RecordNotFound

text \<open>\<open>prisma.session.findUnique({ where: { sessionToken } })\<close>.\<close>

definition session_findUnique :: "env \<Rightarrow> store \<Rightarrow> string \<Rightarrow> error + session option" where
  "session_findUnique env db tok =
     (if findUnique_throws env then Inl StoreFailure
      else Inr (find (\<lambda>s. sessionToken s = tok) db))"

text \<open>
  \<open>prisma.session.update({ where: { id }, data: { expires } })\<close>: a single-row
  write, which the database applies whole or not at all; it throws when no row has the
  id, and whenever the client fails.
\<close>

definition session_update :: "env \<Rightarrow> store \<Rightarrow> string \<Rightarrow> int \<Rightarrow> error + store" where
  "session_update env db sid newExpires =
     (if update_throws env then Inl StoreFailure
      else if \<not> list_ex (\<lambda>s. session_id s = sid) db then Inl RecordNotFound
      else Inr (map (\<lambda>s. if session_id s = sid then s\<lparr>expires := newExpires\<rparr> else s) db))"

text \<open>
  Request headers, by lower-case name (the \<open>Headers\<close> class normalises names), with
  \<open>get\<close> and \<open>set\<close>.
\<close>

type_synonym Headers = "(string \<times> string) list"

definition headers_get :: "Headers \<Rightarrow> string \<Rightarrow> string option" where
  "headers_get hs name = map_of hs name"

definition headers_set :: "string \<Rightarrow> string \<Rightarrow> Headers \<Rightarrow> Headers" where
  "headers_set name v hs = AList.update name v hs"

record request =
  pathname :: string
  http_method :: string
  headers :: Headers

text \<open>
  The JSON bodies of the rejections, by their \<open>error\<close> field: "Authentification requise",
  "Session expiree ou invalide", "Acces refuse", "Permissions insuffisantes" and
  "Erreur d'authentification" (accents left out here).
\<close>

datatype body =
    Authentification_requise
  | Session_expiree_ou_invalide
  | Acces_refuse
  | Permissions_insuffisantes
  | Erreur_d_authentification

text \<open>
  \<open>Next None\<close> is \<open>NextResponse.next()\<close>, \<open>Next (Some h)\<close> is
  \<open>NextResponse.next({ request: { headers: h } })\<close>, and \<open>Json status b\<close> is a
  \<open>new NextResponse(JSON.stringify(...), { status })\<close>.
\<close>

datatype response = Next "Headers option" | Json nat body

fun role_string :: "UserRole \<Rightarrow> string" where
  "role_string ADMIN = ''ADMIN''"
| "role_string MANAGER = ''MANAGER''"
| "role_string CLIENT = ''CLIENT''"
| "role_string DELIVERY = ''DELIVERY''"

section \<open>The middleware (src/middleware.ts)\<close>

text \<open>Lines 30-31: \<open>request.headers.get('authorization')?.split(' ')[1]\<close>.\<close>

definition sessionToken_of :: "request \<Rightarrow> string option" where
  "sessionToken_of request =
     (case headers_get (headers request) ''authorization'' of
        None \<Rightarrow> None
      | Some authHeader \<Rightarrow> at_index (split CHR '' '' authHeader) 1)"

text \<open>
  Lines 66-67: \<open>newExpires.setDate(newExpires.getDate() + 30)\<close> on the current time.
  \<open>getDate\<close> and \<open>setDate\<close> work on the local time value: the time value is
  taken to local time, the day of the month is replaced, which for the day of the month
  plus thirty moves the local time value by thirty times 86 400 000 ms (a day of the
  language's time scale has no leap second), and the result is taken back to UTC
  with the adjustment in force at the new local time. Time values stay far inside
  the range of \<open>Date\<close>, so no clipping occurs.
\<close>

definition LocalTime :: "env \<Rightarrow> int \<Rightarrow> int" where
  "LocalTime env t = t + localTZA env t True"

definition UTC :: "env \<Rightarrow> int \<Rightarrow> int" where
  "UTC env t = t - localTZA env t False"

definition plus_30_days :: "env \<Rightarrow> int \<Rightarrow> int" where
  "plus_30_days env t = UTC env (LocalTime env t + 30 * 86400000)"

text \<open>Lines 65-73: the renewal; \<open>Inl\<close> is the exception thrown by the write.\<close>

definition refresh_session :: "env \<Rightarrow> store \<Rightarrow> session \<Rightarrow> error + store" where
  "refresh_session env db session =
     (if expires session - now_at_renewal_check env < 86400000
      then session_update env db (session_id session) (plus_30_days env (now_at_renewal env))
      else Inr db)"

text \<open>Lines 76-81; \<open>if (user.libraryId)\<close> is false for \<open>null\<close> and for 0.\<close>

definition attach_user :: "user \<Rightarrow> Headers \<Rightarrow> Headers" where
  "attach_user user hs =
     (let h1 = headers_set ''x-user-id'' (toString (user_id user)) hs;
          h2 = headers_set ''x-user-role'' (role_string (user_role user)) h1
      in case libraryId user of
           None \<Rightarrow> h2
         | Some l \<Rightarrow> if l = 0 then h2 else headers_set ''x-user-library-id'' (toString l) h2)"

text \<open>
  Lines 84-106: the special handling of user routes. \<open>Inl\<close> is the early return of
  the rejection, \<open>Inr\<close> the request headers with which the function goes on.
\<close>

definition user_routes :: "user \<Rightarrow> string \<Rightarrow> Headers \<Rightarrow> response + Headers" where
  "user_routes user path requestHeaders =
     (if startsWith path ''/api/users/'' then
        (let userIdInPath = pop (split CHR ''/'' path);
             isSelfAccess = (userIdInPath = Some ''me'' \<or>
                             userIdInPath = Some (toString (user_id user)) \<or>
                             user_role user = ADMIN)
         in if \<not> isSelfAccess then Inl (Json 403 Acces_refuse)
            else if userIdInPath = Some ''me''
              then Inr (headers_set ''x-requested-user-id'' (toString (user_id user)) requestHeaders)
              else Inr requestHeaders)
      else Inr requestHeaders)"

text \<open>
  The whole function, with the permission predicate it calls at line 109 as a
  parameter, so that a result can be shown not to depend on it. It returns the response
  and the session table it leaves. Every exception of the \<open>try\<close> block ends in the
  \<open>catch\<close> at lines 120-126, whose \<open>console.error\<close> is not represented.
\<close>

definition middleware_with ::
  "(UserRole \<Rightarrow> string \<Rightarrow> string \<Rightarrow> bool) \<Rightarrow> env \<Rightarrow> store \<Rightarrow> request \<Rightarrow> response \<times> store" where
  "middleware_with permitted env db request =
     (let path = pathname request;
          method = http_method request
      in if is_public path then (Next None, db)
         else
           (case sessionToken_of request of
              None \<Rightarrow> (Json 401 Authentification_requise, db)
            | Some tok \<Rightarrow>
                if tok = [] then (Json 401 Authentification_requise, db)
                else
                  (case session_findUnique env db tok of
                     Inl e \<Rightarrow> (Json 500 Erreur_d_authentification, db)
                   | Inr None \<Rightarrow> (Json 401 Session_expiree_ou_invalide, db)
                   | Inr (Some session) \<Rightarrow>
                       if expires session < now_at_expiry_check env
                       then (Json 401 Session_expiree_ou_invalide, db)
                       else
                         (case refresh_session env db session of
                            Inl e \<Rightarrow> (Json 500 Erreur_d_authentification, db)
                          | Inr db' \<Rightarrow>
                              (let user = session_user session
                               in case user_routes user path (attach_user user (headers request)) of
                                    Inl rejection \<Rightarrow> (rejection, db')
                                  | Inr requestHeaders \<Rightarrow>
                                      if \<not> permitted (user_role user) path method
                                      then (Json 403 Permissions_insuffisantes, db')
                                      else (Next (Some requestHeaders), db'))))))"

definition middleware :: "env \<Rightarrow> store \<Rightarrow> request \<Rightarrow> response \<times> store" where
  "middleware = middleware_with hasPermission"

section \<open>The permission table as the specification lists it\<close>

text \<open>
  The default table of the specification, row by row: a path rule is an exact path
  or "anything under" one of several stems, and a row grants the listed methods.
  \<open>spec_listed\<close> says that some row for the role covers the path and the method.
\<close>

datatype spec_path = Exact string | Under "string list"

definition spec_table :: "(UserRole \<times> spec_path \<times> string list) list" where
  "spec_table =
    [(ADMIN, Under [''/api/''], [''GET'', ''POST'', ''PATCH'', ''DELETE'']),
     (MANAGER, Under [''/api/libraries/''], [''GET'', ''PATCH'']),
     (MANAGER, Exact ''/api/users'', [''GET'']),
     (MANAGER, Under [''/api/books/''], [''GET'', ''POST'', ''PATCH'', ''DELETE'']),
     (MANAGER, Under [''/api/loans/'', ''/api/reservations/'', ''/api/penalties/''],
        [''GET'', ''POST'', ''PATCH'']),
     (CLIENT, Exact ''/api/users/me'', [''GET'', ''PATCH'']),
     (CLIENT, Exact ''/api/books'', [''GET'']),
     (CLIENT, Exact ''/api/reservations'', [''GET'', ''POST'', ''DELETE'']),
     (CLIENT, Exact ''/api/feedbacks'', [''GET'', ''POST'']),
     (DELIVERY, Exact ''/api/sales'', [''GET'', ''PATCH'']),
     (DELIVERY, Exact ''/api/users/me'', [''GET''])]"

fun spec_path_covers :: "spec_path \<Rightarrow> string \<Rightarrow> bool" where
  "spec_path_covers (Exact s) path = (path = s)"
| "spec_path_covers (Under stems) path = list_ex (\<lambda>stem. prefix stem path) stems"

definition spec_listed :: "UserRole \<Rightarrow> string \<Rightarrow> string \<Rightarrow> bool" where
  "spec_listed role path method =
     list_ex (\<lambda>(r, rule, ms). r = role \<and> spec_path_covers rule path \<and> List.member ms method)
       spec_table"

section \<open>Sample data for the closed instances\<close>

text \<open>A process in UTC, on 14 November 2023.\<close>

definition sample_env :: env where
  "sample_env =
     \<lparr>now_at_expiry_check = 1700000000000, now_at_renewal_check = 1700000000000,
      now_at_renewal = 1700000000001, localTZA = (\<lambda>t isUTC. 0),
      findUnique_throws = False, update_throws = False\<rparr>"

text \<open>
  A process in the Paris time zone at noon UTC on 15 October 2023, two weeks before
  summer time ends (29 October 2023, 01:00 UTC, which is 03:00 local summer time): the
  offset is two hours before the transition and one hour after it. With it, a session
  of user 5 that has twelve hours left.
\<close>

definition paris_env :: env where
  "paris_env =
     \<lparr>now_at_expiry_check = 1697371200000, now_at_renewal_check = 1697371200000,
      now_at_renewal = 1697371200000,
      localTZA = (\<lambda>t isUTC. if isUTC then (if t < 1698541200000 then 7200000 else 3600000)
                             else (if t < 1698548400000 then 7200000 else 3600000)),
      findUnique_throws = False, update_throws = False\<rparr>"

definition paris_session :: session where
  "paris_session =
     \<lparr>session_id = ''s5'', sessionToken = ''tok-paris'', expires = 1697414400000,
      session_user = \<lparr>user_id = 5, user_role = CLIENT, libraryId = None\<rparr>\<rparr>"

text \<open>
  Four sessions: a client with ten days left, a client whose session ended one
  millisecond ago, a client with twelve hours left, and a manager with ten days left.
\<close>

definition client_session :: session where
  "client_session =
     \<lparr>session_id = ''s1'', sessionToken = ''tok-client'', expires = 1700864000000,
      session_user = \<lparr>user_id = 7, user_role = CLIENT, libraryId = None\<rparr>\<rparr>"

definition old_session :: session where
  "old_session =
     \<lparr>session_id = ''s2'', sessionToken = ''tok-old'', expires = 1699999999999,
      session_user = \<lparr>user_id = 8, user_role = CLIENT, libraryId = None\<rparr>\<rparr>"

definition soon_session :: session where
  "soon_session =
     \<lparr>session_id = ''s3'', sessionToken = ''tok-soon'', expires = 1700043200000,
      session_user = \<lparr>user_id = 9, user_role = CLIENT, libraryId = None\<rparr>\<rparr>"

definition manager_session :: session where
  "manager_session =
     \<lparr>session_id = ''s4'', sessionToken = ''tok-manager'', expires = 1700864000000,
      session_user = \<lparr>user_id = 3, user_role = MANAGER, libraryId = Some 2\<rparr>\<rparr>"

definition sample_db :: store where
  "sample_db = [client_session, old_session, soon_session, manager_session]"

definition sample_request :: "string \<Rightarrow> string \<Rightarrow> string \<Rightarrow> request" where
  "sample_request method path token =
     \<lparr>pathname = path, http_method = method,
      headers = [(''authorization'', ''Bearer '' @ token)]\<rparr>"

section \<open>The matcher agrees with the denotation\<close>

lemma nullable_lang: "nullable r \<longleftrightarrow> [] \<in> lang r"
  by (induction r) (auto simp: conc_def intro: star.intros)

lemma star_cons:
  "c # w \<in> star A \<longleftrightarrow> (\<exists>u v. w = u @ v \<and> c # u \<in> A \<and> v \<in> star A)"
proof
  assume "c # w \<in> star A"
  then show "\<exists>u v. w = u @ v \<and> c # u \<in> A \<and> v \<in> star A"
  proof (induction "c # w" rule: star.induct)
    case (star_step u v)
    show ?case
    proof (cases u)
      case Nil
      with star_step show ?thesis by simp
    next
      case (Cons a u')
      with star_step.hyps(1,2,4) show ?thesis by auto
    qed
  qed
next
  assume "\<exists>u v. w = u @ v \<and> c # u \<in> A \<and> v \<in> star A"
  then obtain u v where "w = u @ v" "c # u \<in> A" "v \<in> star A" by blast
  then show "c # w \<in> star A"
    using star_step [of "c # u" A v] by simp
qed

lemma deriv_lang: "w \<in> lang (deriv c r) \<longleftrightarrow> c # w \<in> lang r"
proof (induction r arbitrary: w)
  case (RSeq r s)
  then show ?case
    by (auto simp: conc_def nullable_lang Cons_eq_append_conv)
next
  case (RStar r)
  then show ?case
    by (auto simp: conc_def star_cons)
qed auto

lemma rx_test_lang: "rx_test r s \<longleftrightarrow> (\<exists>p \<in> lang r. prefix p s)"
proof (induction s arbitrary: r)
  case Nil
  then show ?case by (auto simp: nullable_lang)
next
  case (Cons c cs)
  show ?case
  proof
    assume "rx_test r (c # cs)"
    then consider "nullable r" | "rx_test (deriv c r) cs" by auto
    then show "\<exists>p \<in> lang r. prefix p (c # cs)"
    proof cases
      case 1
      then have "[] \<in> lang r" "prefix [] (c # cs)"
        by (simp_all add: nullable_lang)
      then show ?thesis by blast
    next
      case 2
      then obtain p where "p \<in> lang (deriv c r)" "prefix p cs"
        using Cons.IH by blast
      then have "c # p \<in> lang r" "prefix (c # p) (c # cs)"
        by (simp_all add: deriv_lang)
      then show ?thesis by blast
    qed
  next
    assume "\<exists>p \<in> lang r. prefix p (c # cs)"
    then obtain p where p: "p \<in> lang r" "prefix p (c # cs)" by blast
    show "rx_test r (c # cs)"
    proof (cases p)
      case Nil
      with p show ?thesis by (simp add: nullable_lang)
    next
      case (Cons a p')
      with p have "p' \<in> lang (deriv c r)" "prefix p' cs"
        by (simp_all add: deriv_lang)
      then show ?thesis using Cons.IH by auto
    qed
  qed
qed

lemma lang_lit: "lang (lit s) = {s}"
  by (induction s) (auto simp: conc_def)

lemma lang_lit_seq: "lang (RSeq (lit s) r) = {s @ w | w. w \<in> lang r}"
  by (auto simp: conc_def lang_lit)

text \<open>A literal run followed by \<open>.*\<close> tests for an initial segment.\<close>

lemma rx_test_lit_dotstar: "rx_test (RSeq (lit s) (RStar RDot)) p \<longleftrightarrow> prefix s p"
proof
  assume "rx_test (RSeq (lit s) (RStar RDot)) p"
  then obtain q where "q \<in> lang (RSeq (lit s) (RStar RDot))" "prefix q p"
    unfolding rx_test_lang by blast
  then obtain w where "prefix (s @ w) p"
    unfolding lang_lit_seq by blast
  then show "prefix s p"
    by (rule append_prefixD)
next
  assume "prefix s p"
  moreover have "s \<in> lang (RSeq (lit s) (RStar RDot))"
    using lang_lit_seq [of s "RStar RDot"] by (auto intro: star_nil)
  ultimately show "rx_test (RSeq (lit s) (RStar RDot)) p"
    unfolding rx_test_lang by blast
qed

section \<open>Splitting and decimal rendering\<close>

lemma split_nonempty: "split sep s \<noteq> []"
  by (induction s) (auto simp: Let_def)

lemma split_no_sep: "sep \<notin> set s \<Longrightarrow> split sep s = [s]"
  by (induction s) (auto simp: Let_def)

lemma split_append_sep: "split sep (xs @ sep # ys) = split sep xs @ split sep ys"
  by (induction xs) (auto simp: Let_def split_nonempty)

lemma pop_split_append_sep: "pop (split sep (xs @ sep # ys)) = pop (split sep ys)"
  by (simp add: pop_def split_append_sep split_nonempty)

lemma pop_split_segment:
  "sep \<notin> set seg \<Longrightarrow> pop (split sep (xs @ sep # seg)) = Some seg"
  by (simp add: pop_split_append_sep split_no_sep) (simp add: pop_def)

lemma digit_char_code: "d < 10 \<Longrightarrow> of_char (digit_char d) = 48 + d"
  by (simp add: digit_char_def)

lemma digit_char_inj: "a < 10 \<Longrightarrow> b < 10 \<Longrightarrow> digit_char a = digit_char b \<Longrightarrow> a = b"
  using digit_char_code [of a] digit_char_code [of b] by (metis add_left_cancel)

lemma digits_nonempty: "digits n \<noteq> []"
  by (subst digits.simps) simp

lemma digits_chars: "c \<in> set (digits n) \<Longrightarrow> \<exists>d<10. c = digit_char d"
proof (induction n rule: digits.induct)
  case (1 n)
  show ?case
  proof (cases "n < 10")
    case True
    with "1.prems" show ?thesis by (subst (asm) digits.simps) auto
  next
    case False
    with "1.prems" have "c \<in> set (digits (n div 10)) \<or> c = digit_char (n mod 10)"
      by (subst (asm) digits.simps) auto
    with False "1.IH" show ?thesis
      by (metis mod_less_divisor zero_less_numeral)
  qed
qed

lemma digits_inj: "digits m = digits n \<Longrightarrow> m = n"
proof (induction m arbitrary: n rule: digits.induct)
  case (1 m)
  have len: "\<And>k. \<not> k < 10 \<Longrightarrow> length (digits k) \<ge> 2"
  proof -
    fix k :: nat assume "\<not> k < 10"
    then have "digits k = digits (k div 10) @ [digit_char (k mod 10)]"
      by (subst digits.simps) simp
    moreover have "length (digits (k div 10)) \<ge> 1"
      using digits_nonempty [of "k div 10"] by (cases "digits (k div 10)") auto
    ultimately show "length (digits k) \<ge> 2" by simp
  qed
  have one: "\<And>k. k < 10 \<Longrightarrow> digits k = [digit_char k]"
    by (subst digits.simps) simp
  show ?case
  proof (cases "m < 10")
    case True
    show ?thesis
    proof (cases "n < 10")
      case nT: True
      with True "1.prems" show ?thesis by (simp add: one digit_char_inj)
    next
      case False
      from "1.prems" have "length (digits m) = length (digits n)" by simp
      with True False len [of n] show ?thesis by (simp add: one)
    qed
  next
    case False
    show ?thesis
    proof (cases "n < 10")
      case True
      from "1.prems" have "length (digits m) = length (digits n)" by simp
      with True False len [of m] show ?thesis by (simp add: one)
    next
      case nF: False
      have "digits m = digits (m div 10) @ [digit_char (m mod 10)]"
        using False by (subst digits.simps) simp
      moreover have "digits n = digits (n div 10) @ [digit_char (n mod 10)]"
        using nF by (subst digits.simps) simp
      ultimately have eq: "digits (m div 10) = digits (n div 10)"
        and d: "digit_char (m mod 10) = digit_char (n mod 10)"
        using "1.prems" by simp_all
      from eq False "1.IH" have "m div 10 = n div 10" by blast
      moreover from d have "m mod 10 = n mod 10"
        by (intro digit_char_inj) simp_all
      ultimately show ?thesis by (metis div_mult_mod_eq)
    qed
  qed
qed

lemma minus_not_digit: "d < 10 \<Longrightarrow> digit_char d \<noteq> CHR ''-''"
  using digit_char_code [of d] by auto

lemma toString_inj: "toString a = toString b \<Longrightarrow> a = b"
proof -
  assume eq: "toString a = toString b"
  have nd: "\<And>n. hd (digits n) \<noteq> CHR ''-''"
  proof -
    fix n
    have "hd (digits n) \<in> set (digits n)" using digits_nonempty by simp
    then obtain d where "d < 10" "hd (digits n) = digit_char d"
      using digits_chars by blast
    then show "hd (digits n) \<noteq> CHR ''-''" by (simp add: minus_not_digit)
  qed
  consider "a < 0" "b < 0" | "a < 0" "\<not> b < 0" | "\<not> a < 0" "b < 0" | "\<not> a < 0" "\<not> b < 0" by blast
  then show "a = b"
  proof cases
    case 1
    with eq have "digits (nat (- a)) = digits (nat (- b))" by (simp add: toString_def)
    then have "nat (- a) = nat (- b)" by (rule digits_inj)
    with 1 show ?thesis by simp
  next
    case 2
    with eq have "CHR ''-'' # digits (nat (- a)) = digits (nat b)" by (simp add: toString_def)
    then have "hd (digits (nat b)) = CHR ''-''" by (metis list.sel(1))
    with nd show ?thesis by blast
  next
    case 3
    with eq have "hd (digits (nat a)) = CHR ''-''" by (simp add: toString_def)
    with nd show ?thesis by blast
  next
    case 4
    with eq have "digits (nat a) = digits (nat b)" by (simp add: toString_def)
    then have "nat a = nat b" by (rule digits_inj)
    with 4 show ?thesis by simp
  qed
qed

lemma toString_not_me: "toString i \<noteq> ''me''"
proof
  assume "toString i = ''me''"
  then have "CHR ''m'' \<in> set (toString i)" by simp
  then have "CHR ''m'' \<in> set (digits (nat (- i))) \<or> CHR ''m'' \<in> set (digits (nat i))"
    by (auto simp: toString_def split: if_splits)
  then obtain d where "d < 10" "CHR ''m'' = digit_char d"
    using digits_chars by blast
  then have "of_char (CHR ''m'') = (48 + d :: nat)"
    using digit_char_code [of d] by simp
  with \<open>d < 10\<close> show False by simp
qed

section \<open>The table of the code and the table of the specification\<close>

lemma rx_test_api_any: "rx_test api_any p \<longleftrightarrow> prefix ''/api/'' p"
  unfolding api_any_def by (rule rx_test_lit_dotstar)

lemma rx_test_api_libraries: "rx_test api_libraries p \<longleftrightarrow> prefix ''/api/libraries/'' p"
  unfolding api_libraries_def by (rule rx_test_lit_dotstar)

lemma rx_test_api_books: "rx_test api_books p \<longleftrightarrow> prefix ''/api/books/'' p"
  unfolding api_books_def by (rule rx_test_lit_dotstar)

lemma rx_test_alt: "rx_test (RAlt a b) p \<longleftrightarrow> rx_test a p \<or> rx_test b p"
  by (auto simp: rx_test_lang)

lemma rx_test_cong: "lang a = lang b \<Longrightarrow> rx_test a p = rx_test b p"
  by (simp add: rx_test_lang)

lemma lang_stem:
  "lang (RSeq (lit s) (RSeq (lit t) (RSeq (RChr c) r))) = lang (RSeq (lit (s @ t @ [c])) r)"
  by (auto simp: conc_def lang_lit)

lemma lang_seq_alt:
  "lang (RSeq a (RSeq (RAlt b c) d)) = lang (RSeq a (RSeq b d)) \<union> lang (RSeq a (RSeq c d))"
  by (auto simp: conc_def)

lemma rx_test_api_lrp:
  "rx_test api_loans_reservations_penalties p \<longleftrightarrow>
     prefix ''/api/loans/'' p \<or> prefix ''/api/reservations/'' p \<or> prefix ''/api/penalties/'' p"
proof -
  let ?d = "RStar RDot"
  let ?tail = "RSeq (RChr CHR ''/'') ?d"
  have "lang api_loans_reservations_penalties =
          lang (RSeq (lit ''/api/'') (RSeq (lit ''loans'') ?tail))
        \<union> lang (RSeq (lit ''/api/'') (RSeq (lit ''reservations'') ?tail))
        \<union> lang (RSeq (lit ''/api/'') (RSeq (lit ''penalties'') ?tail))"
    unfolding api_loans_reservations_penalties_def by (simp only: lang_seq_alt Un_assoc)
  also have "\<dots> = lang (RSeq (lit ''/api/loans/'') ?d)
        \<union> lang (RSeq (lit ''/api/reservations/'') ?d)
        \<union> lang (RSeq (lit ''/api/penalties/'') ?d)"
    unfolding lang_stem by simp
  also have "\<dots> = lang (RAlt (RSeq (lit ''/api/loans/'') ?d)
                     (RAlt (RSeq (lit ''/api/reservations/'') ?d) (RSeq (lit ''/api/penalties/'') ?d)))"
    by auto
  finally have "rx_test api_loans_reservations_penalties p =
     rx_test (RAlt (RSeq (lit ''/api/loans/'') ?d)
                     (RAlt (RSeq (lit ''/api/reservations/'') ?d) (RSeq (lit ''/api/penalties/'') ?d))) p"
    by (rule rx_test_cong)
  then show ?thesis
    by (simp only: rx_test_alt rx_test_lit_dotstar)
qed

lemma hasPermission_spec_listed: "hasPermission role path method = spec_listed role path method"
  by (cases role)
     (auto simp: hasPermission_def permissions_def rule_matches_def spec_listed_def spec_table_def
        rx_test_api_any rx_test_api_libraries rx_test_api_books rx_test_api_lrp)

lemma cookie_permissions_eq: "cookie_hasPermission = hasPermission"
  by (simp add: fun_eq_iff cookie_hasPermission_def hasPermission_def cookie_permissions_def permissions_def)

lemma starts_with_listed_route:
  assumes "route \<in> set publicRoutes" and "rest \<noteq> []"
  shows "is_public (route @ rest) \<and> \<not> cookie_is_public (route @ rest)"
proof
  show "is_public (route @ rest)"
    unfolding is_public_def list_ex_iff startsWith_def
    using assms(1) prefixI [of "route @ rest" route rest] by blast
  show "\<not> cookie_is_public (route @ rest)"
    using assms by (auto simp: cookie_is_public_def cookie_publicRoutes_def publicRoutes_def)
qed

lemma users_not_public: "startsWith path ''/api/users/'' \<Longrightarrow> \<not> is_public path"
  by (auto simp: startsWith_def is_public_def publicRoutes_def elim!: prefixE)

section \<open>Stages of the middleware\<close>

lemma headers_get_set:
  "headers_get (headers_set k v hs) k' = (if k' = k then Some v else headers_get hs k')"
  by (simp add: headers_get_def headers_set_def update_conv')

lemma find_update_expires:
  "find (\<lambda>x. sessionToken x = tok) db = Some s \<Longrightarrow>
   find (\<lambda>x. sessionToken x = tok)
     (map (\<lambda>x. if session_id x = session_id s then x\<lparr>expires := e\<rparr> else x) db)
     = Some (s\<lparr>expires := e\<rparr>)"
  by (induction db) (auto split: if_splits)

lemma session_update_lookup:
  assumes "session_findUnique env db tok = Inr (Some s)"
    and "session_update env db (session_id s) e = Inr db'"
  shows "session_findUnique env db' tok = Inr (Some (s\<lparr>expires := e\<rparr>))"
  using assms
  by (auto simp: session_findUnique_def session_update_def find_update_expires split: if_splits)

lemma middleware_with_authenticated:
  assumes "\<not> is_public (pathname request)"
    and "sessionToken_of request = Some tok" and "tok \<noteq> []"
    and "session_findUnique env db tok = Inr (Some s)"
    and "\<not> expires s < now_at_expiry_check env"
    and "refresh_session env db s = Inr db'"
  shows "middleware_with permitted env db request =
     (case user_routes (session_user s) (pathname request)
             (attach_user (session_user s) (headers request)) of
        Inl rejection \<Rightarrow> (rejection, db')
      | Inr requestHeaders \<Rightarrow>
          if \<not> permitted (user_role (session_user s)) (pathname request) (http_method request)
          then (Json 403 Permissions_insuffisantes, db')
          else (Next (Some requestHeaders), db'))"
  using assms by (simp add: middleware_with_def Let_def)

lemma user_routes_segment:
  assumes "path = ''/api/users/'' @ seg" and "CHR ''/'' \<notin> set seg"
  shows "user_routes u path hs =
     (if seg = ''me'' then Inr (headers_set ''x-requested-user-id'' (toString (user_id u)) hs)
      else if seg = toString (user_id u) \<or> user_role u = ADMIN then Inr hs
      else Inl (Json 403 Acces_refuse))"
proof -
  have "pop (split CHR ''/'' (''/api/users'' @ CHR ''/'' # seg)) = Some seg"
    using assms(2) by (rule pop_split_segment)
  then have "pop (split CHR ''/'' path) = Some seg"
    using assms(1) by simp
  moreover have "startsWith path ''/api/users/''"
    using assms(1) by (simp add: startsWith_def)
  ultimately show ?thesis
    by (simp add: user_routes_def Let_def toString_not_me)
qed

lemma users_path_not_public: "\<not> is_public (''/api/users/'' @ rest)"
  by (rule users_not_public) (simp add: startsWith_def)

lemma non_admin_users_path:
  assumes "role \<noteq> ADMIN" and "hasPermission role (''/api/users/'' @ rest) m"
  shows "rest = ''me''"
  using assms
  by (cases role) (auto simp: hasPermission_spec_listed spec_listed_def spec_table_def)

lemma found_has_id:
  "session_findUnique env db tok = Inr (Some s) \<Longrightarrow> list_ex (\<lambda>x. session_id x = session_id s) db"
  by (auto simp: session_findUnique_def list_ex_iff find_Some_iff split: if_splits)

lemma refresh_session_due:
  assumes "session_findUnique env db tok = Inr (Some s)"
    and "expires s - now_at_renewal_check env < 86400000"
    and "refresh_session env db s = Inr db'"
  shows "session_findUnique env db' tok =
           Inr (Some (s\<lparr>expires := plus_30_days env (now_at_renewal env)\<rparr>))"
  using assms session_update_lookup [OF assms(1), of "plus_30_days env (now_at_renewal env)" db']
  by (simp add: refresh_session_def)

lemma plus_30_days_same_offset:
  "localTZA env (LocalTime env t + 30 * 86400000) False = localTZA env t True \<Longrightarrow>
   plus_30_days env t = t + 30 * 86400000"
  by (simp add: plus_30_days_def UTC_def LocalTime_def)

lemma refresh_session_succeeds:
  assumes "session_findUnique env db tok = Inr (Some s)" and "\<not> update_throws env"
  shows "\<exists>db'. refresh_session env db s = Inr db'"
  using found_has_id [OF assms(1)] assms(2)
  by (simp add: refresh_session_def session_update_def)

lemma middleware_with_store:
  assumes "\<not> is_public (pathname request)"
    and "sessionToken_of request = Some tok" and "tok \<noteq> []"
    and "session_findUnique env db tok = Inr (Some s)"
    and "\<not> expires s < now_at_expiry_check env"
    and "refresh_session env db s = Inr db'"
  shows "snd (middleware_with permitted env db request) = db'"
  unfolding middleware_with_authenticated [OF assms]
  by (simp split: sum.splits)

section \<open>Claims about the permission table\<close>

text \<open>
  Claim C1 (deny by default). For every role and every path and method that no row
  of the default table lists for that role, \<open>hasPermission\<close> returns false; in
  particular a MANAGER may not DELETE \<open>/api/users\<close>.
\<close>

theorem deny_by_default:
  "(\<not> spec_listed role path method \<longrightarrow> hasPermission role path method = False) \<and>
   hasPermission MANAGER ''/api/users'' ''DELETE'' = False"
proof
  show "\<not> spec_listed role path method \<longrightarrow> hasPermission role path method = False"
    by (simp add: hasPermission_spec_listed)
  have "\<not> spec_listed MANAGER ''/api/users'' ''DELETE''"
    by (simp add: spec_listed_def spec_table_def)
  then show "hasPermission MANAGER ''/api/users'' ''DELETE'' = False"
    by (simp add: hasPermission_spec_listed)
qed

theorem deny_by_default_witness:
  "\<not> spec_listed MANAGER ''/api/users'' ''DELETE'' \<and>
   hasPermission MANAGER ''/api/users'' ''DELETE'' = False"
proof -
  have h: "\<not> spec_listed MANAGER ''/api/users'' ''DELETE''"
    by (simp add: spec_listed_def spec_table_def)
  with deny_by_default [of MANAGER "''/api/users''" "''DELETE''"] show ?thesis by blast
qed

text \<open>
  Claim C5 (ADMIN full access). For every path that starts with \<open>/api/\<close> and every
  method among GET, POST, PATCH and DELETE, \<open>hasPermission\<close> is true for ADMIN.
\<close>

theorem admin_full_access:
  assumes "startsWith p ''/api/''"
    and "m \<in> {''GET'', ''POST'', ''PATCH'', ''DELETE''}"
  shows "hasPermission ADMIN p m"
  using assms
  by (auto simp: hasPermission_def permissions_def rule_matches_def rx_test_api_any startsWith_def)

theorem admin_full_access_witness:
  "startsWith ''/api/users/8/penalties'' ''/api/'' \<and>
   ''DELETE'' \<in> {''GET'', ''POST'', ''PATCH'', ''DELETE''} \<and>
   hasPermission ADMIN ''/api/users/8/penalties'' ''DELETE''"
proof -
  have h1: "startsWith ''/api/users/8/penalties'' ''/api/''" by (simp add: startsWith_def)
  have h2: "''DELETE'' \<in> {''GET'', ''POST'', ''PATCH'', ''DELETE''}" by simp
  from admin_full_access [OF h1 h2] h1 h2 show ?thesis by blast
qed

text \<open>
  Claim C8 (the two variants). The claim says that the public-route lists of the
  bearer-token variant and of the cookie variant differ on some route and that their
  \<open>hasPermission\<close> functions differ on some role, path and method. The second half
  fails: the two tables are the same, so both halves cannot hold together.
\<close>

theorem variants_differ_counterexample:
  "\<not> ((\<exists>path. is_public path \<noteq> cookie_is_public path) \<and>
      (\<exists>role path method. hasPermission role path method \<noteq> cookie_hasPermission role path method))"
  by (simp add: cookie_permissions_eq)

text \<open>
  Claim C8, amended. The public-route lists overlap without being equal: the login
  and registration routes are public in both variants, while \<open>/api/auth/session\<close>
  and every path that a listed route of the bearer-token variant starts without being
  the whole of it, such as \<open>/api/auth/login/x\<close>, are public in the bearer-token
  variant only. The permission tables are equal, and so are the two \<open>hasPermission\<close>
  functions on every role, path and method.
\<close>

theorem variants_public_routes_differ_tables_agree:
  "is_public ''/api/auth/session'' \<and> \<not> cookie_is_public ''/api/auth/session'' \<and>
   is_public ''/api/auth/login/x'' \<and> \<not> cookie_is_public ''/api/auth/login/x'' \<and>
   is_public ''/api/auth/login'' \<and> cookie_is_public ''/api/auth/login'' \<and>
   is_public ''/api/auth/register'' \<and> cookie_is_public ''/api/auth/register'' \<and>
   cookie_permissions = permissions \<and>
   cookie_hasPermission role path method = hasPermission role path method \<and>
   (route \<in> set publicRoutes \<and> rest \<noteq> [] \<longrightarrow>
      is_public (route @ rest) \<and> \<not> cookie_is_public (route @ rest))"
  using starts_with_listed_route [of route rest]
  by (simp add: is_public_def publicRoutes_def startsWith_def cookie_is_public_def
      cookie_publicRoutes_def cookie_permissions_def permissions_def cookie_permissions_eq)

theorem variants_public_routes_differ_tables_agree_witness:
  "''/api/auth/debug'' \<in> set publicRoutes \<and> ''/anything'' \<noteq> [] \<and>
   is_public (''/api/auth/debug'' @ ''/anything'') \<and>
   \<not> cookie_is_public (''/api/auth/debug'' @ ''/anything'')"
proof -
  have h1: "''/api/auth/debug'' \<in> set publicRoutes" by (simp add: publicRoutes_def)
  have h2: "''/anything'' \<noteq> []" by simp
  from variants_public_routes_differ_tables_agree
         [where route = "''/api/auth/debug''" and rest = "''/anything''"] h1 h2
  show ?thesis by blast
qed

section \<open>Claims about the middleware\<close>

text \<open>
  Claim C2 (self-access before the permission check). Take an authenticated caller
  who is not ADMIN: the request carries a token, the lookup returns an unexpired
  session \<open>s\<close>, and the renewal step ends with the table \<open>db'\<close>. On a path
  \<open>/api/users/seg\<close> with a single trailing segment: if the segment is \<open>me\<close> or
  the caller's own id, the outcome is the one the permission check decides (forwarded
  with the identity headers when it grants, 403 "Permissions insuffisantes" when it
  denies); if the segment is the id of another user, the outcome is 403 "Acces refuse"
  for every permission predicate, that is, without consulting it.
\<close>

theorem self_access_before_permission_check:
  assumes "sessionToken_of request = Some tok" and "tok \<noteq> []"
    and "session_findUnique env db tok = Inr (Some s)"
    and "\<not> expires s < now_at_expiry_check env"
    and "refresh_session env db s = Inr db'"
    and "user_role (session_user s) \<noteq> ADMIN"
    and "pathname request = ''/api/users/'' @ seg" and "CHR ''/'' \<notin> set seg"
  shows "(seg = ''me'' \<or> seg = toString (user_id (session_user s)) \<longrightarrow>
            middleware_with permitted env db request =
              (if permitted (user_role (session_user s)) (pathname request) (http_method request)
               then (Next (Some (if seg = ''me''
                       then headers_set ''x-requested-user-id'' (toString (user_id (session_user s)))
                              (attach_user (session_user s) (headers request))
                       else attach_user (session_user s) (headers request))), db')
               else (Json 403 Permissions_insuffisantes, db'))) \<and>
         (seg = toString other \<and> other \<noteq> user_id (session_user s) \<longrightarrow>
            middleware_with permitted env db request = (Json 403 Acces_refuse, db'))"
proof -
  have np: "\<not> is_public (pathname request)"
    using assms(7) users_path_not_public by simp
  note mw = middleware_with_authenticated [OF np assms(1-5), of permitted]
  note ur = user_routes_segment [OF assms(7,8)]
  show ?thesis
  proof (intro conjI impI)
    assume "seg = ''me'' \<or> seg = toString (user_id (session_user s))"
    then show "middleware_with permitted env db request =
              (if permitted (user_role (session_user s)) (pathname request) (http_method request)
               then (Next (Some (if seg = ''me''
                       then headers_set ''x-requested-user-id'' (toString (user_id (session_user s)))
                              (attach_user (session_user s) (headers request))
                       else attach_user (session_user s) (headers request))), db')
               else (Json 403 Permissions_insuffisantes, db'))"
      by (auto simp: mw ur)
  next
    assume a: "seg = toString other \<and> other \<noteq> user_id (session_user s)"
    then have "seg \<noteq> ''me''" "seg \<noteq> toString (user_id (session_user s))"
      using toString_not_me toString_inj by auto
    then show "middleware_with permitted env db request = (Json 403 Acces_refuse, db')"
      using assms(6) by (simp add: mw ur)
  qed
qed

theorem self_access_before_permission_check_witness:
  "sessionToken_of (sample_request ''GET'' ''/api/users/7'' ''tok-client'') = Some ''tok-client'' \<and>
   ''tok-client'' \<noteq> [] \<and>
   session_findUnique sample_env sample_db ''tok-client'' = Inr (Some client_session) \<and>
   \<not> expires client_session < now_at_expiry_check sample_env \<and>
   refresh_session sample_env sample_db client_session = Inr sample_db \<and>
   user_role (session_user client_session) \<noteq> ADMIN \<and>
   pathname (sample_request ''GET'' ''/api/users/7'' ''tok-client'') = ''/api/users/'' @ ''7'' \<and>
   CHR ''/'' \<notin> set ''7'' \<and>
   ''7'' = toString (user_id (session_user client_session)) \<and>
   middleware_with (\<lambda>role path method. True) sample_env sample_db
       (sample_request ''GET'' ''/api/users/7'' ''tok-client'')
     = (Next (Some (attach_user (session_user client_session)
                     (headers (sample_request ''GET'' ''/api/users/7'' ''tok-client'')))), sample_db) \<and>
   middleware_with hasPermission sample_env sample_db
       (sample_request ''GET'' ''/api/users/7'' ''tok-client'')
     = (Json 403 Permissions_insuffisantes, sample_db) \<and>
   sessionToken_of (sample_request ''GET'' ''/api/users/8'' ''tok-client'') = Some ''tok-client'' \<and>
   pathname (sample_request ''GET'' ''/api/users/8'' ''tok-client'') = ''/api/users/'' @ ''8'' \<and>
   CHR ''/'' \<notin> set ''8'' \<and>
   ''8'' = toString 8 \<and> 8 \<noteq> user_id (session_user client_session) \<and>
   middleware_with (\<lambda>role path method. True) sample_env sample_db
       (sample_request ''GET'' ''/api/users/8'' ''tok-client'')
     = (Json 403 Acces_refuse, sample_db)"
proof -
  let ?r7 = "sample_request ''GET'' ''/api/users/7'' ''tok-client''"
  let ?r8 = "sample_request ''GET'' ''/api/users/8'' ''tok-client''"
  have h1: "sessionToken_of ?r7 = Some ''tok-client''" by code_simp
  have k1: "sessionToken_of ?r8 = Some ''tok-client''" by code_simp
  have h2: "''tok-client'' \<noteq> []" by simp
  have h3: "session_findUnique sample_env sample_db ''tok-client'' = Inr (Some client_session)"
    by code_simp
  have h4: "\<not> expires client_session < now_at_expiry_check sample_env" by code_simp
  have h5: "refresh_session sample_env sample_db client_session = Inr sample_db" by code_simp
  have h6: "user_role (session_user client_session) \<noteq> ADMIN" by code_simp
  have h7: "pathname ?r7 = ''/api/users/'' @ ''7''" by code_simp
  have k7: "pathname ?r8 = ''/api/users/'' @ ''8''" by code_simp
  have h8: "CHR ''/'' \<notin> set ''7''" by simp
  have k8: "CHR ''/'' \<notin> set ''8''" by simp
  have s7: "''7'' = toString (user_id (session_user client_session))" by code_simp
  have s8: "''8'' = toString 8" by code_simp
  have o8: "8 \<noteq> user_id (session_user client_session)" by code_simp
  have m: "''7'' \<noteq> ''me''" by simp
  have d: "\<not> hasPermission (user_role (session_user client_session)) (pathname ?r7) (http_method ?r7)"
    by code_simp
  from self_access_before_permission_check
         [OF h1 h2 h3 h4 h5 h6 h7 h8, where permitted = "\<lambda>role path method. True"] s7 m
  have a: "middleware_with (\<lambda>role path method. True) sample_env sample_db ?r7
     = (Next (Some (attach_user (session_user client_session) (headers ?r7))), sample_db)"
    by simp
  from self_access_before_permission_check [OF h1 h2 h3 h4 h5 h6 h7 h8, where permitted = hasPermission] s7 m d
  have b: "middleware_with hasPermission sample_env sample_db ?r7
     = (Json 403 Permissions_insuffisantes, sample_db)"
    by simp
  from self_access_before_permission_check
         [OF k1 h2 h3 h4 h5 h6 k7 k8, where other = 8 and permitted = "\<lambda>role path method. True"]
       s8 o8
  have c: "middleware_with (\<lambda>role path method. True) sample_env sample_db ?r8
     = (Json 403 Acces_refuse, sample_db)"
    by simp
  from a b c h1 k1 h2 h3 h4 h5 h6 h7 k7 h8 k8 s7 s8 o8 show ?thesis by blast
qed

text \<open>
  Claim C3 (expired session). The claim says that every request carrying a token
  whose session row exists with \<open>expires\<close> strictly in the past is rejected with
  401. A request to a public route is forwarded before any token is read: here a
  login request that carries the token of the session which ended a millisecond ago.
\<close>

theorem expired_session_public_route_counterexample:
  "sessionToken_of (sample_request ''POST'' ''/api/auth/login'' ''tok-old'') = Some ''tok-old'' \<and>
   session_findUnique sample_env sample_db ''tok-old'' = Inr (Some old_session) \<and>
   expires old_session < now_at_expiry_check sample_env \<and>
   middleware sample_env sample_db (sample_request ''POST'' ''/api/auth/login'' ''tok-old'')
     = (Next None, sample_db)"
  by code_simp

text \<open>
  Claim C3, amended. For every request to a route that is not public and that
  carries a non-empty token for which the lookup returns a session row with
  \<open>expires\<close> strictly before the clock reading: the answer is 401 "Session expiree
  ou invalide", the session table is left as it was (no renewal), the response is a
  rejection and not a forwarded request (no header injection), and it is the same for
  every permission predicate (no permission lookup). It is the answer given when the
  lookup finds no row at all.
\<close>

theorem expired_session_rejected:
  assumes "\<not> is_public (pathname request)"
    and "sessionToken_of request = Some tok" and "tok \<noteq> []"
    and "session_findUnique env db tok = Inr (Some s)"
    and "expires s < now_at_expiry_check env"
  shows "middleware_with permitted env db request = (Json 401 Session_expiree_ou_invalide, db) \<and>
         (session_findUnique env db0 tok = Inr None \<longrightarrow>
            middleware_with permitted env db0 request = (Json 401 Session_expiree_ou_invalide, db0))"
  using assms by (simp add: middleware_with_def Let_def)

theorem expired_session_rejected_witness:
  "\<not> is_public (pathname (sample_request ''GET'' ''/api/books'' ''tok-old'')) \<and>
   sessionToken_of (sample_request ''GET'' ''/api/books'' ''tok-old'') = Some ''tok-old'' \<and>
   ''tok-old'' \<noteq> [] \<and>
   session_findUnique sample_env sample_db ''tok-old'' = Inr (Some old_session) \<and>
   expires old_session < now_at_expiry_check sample_env \<and>
   session_findUnique sample_env [client_session] ''tok-old'' = Inr None \<and>
   middleware_with hasPermission sample_env sample_db (sample_request ''GET'' ''/api/books'' ''tok-old'')
     = (Json 401 Session_expiree_ou_invalide, sample_db) \<and>
   middleware_with hasPermission sample_env [client_session] (sample_request ''GET'' ''/api/books'' ''tok-old'')
     = (Json 401 Session_expiree_ou_invalide, [client_session])"
proof -
  let ?rq = "sample_request ''GET'' ''/api/books'' ''tok-old''"
  have h1: "\<not> is_public (pathname ?rq)" by code_simp
  have h2: "sessionToken_of ?rq = Some ''tok-old''" by code_simp
  have h3: "''tok-old'' \<noteq> []" by simp
  have h4: "session_findUnique sample_env sample_db ''tok-old'' = Inr (Some old_session)"
    by code_simp
  have h5: "expires old_session < now_at_expiry_check sample_env" by code_simp
  have h6: "session_findUnique sample_env [client_session] ''tok-old'' = Inr None" by code_simp
  from expired_session_rejected [OF h1 h2 h3 h4 h5, of hasPermission "[client_session]"]
    h1 h2 h3 h4 h5 h6
  show ?thesis by blast
qed

text \<open>
  Claim C4 (sliding-window renewal). The claim says that every request with a valid
  unexpired session whose remaining lifetime is below one day has \<open>expires\<close> set to
  now plus thirty days. A request to a public route is forwarded without any lookup
  or write: here a request to \<open>/api/auth/session\<close> with the token of the session that
  has twelve hours left, after which the table is unchanged.
\<close>

theorem renewal_skipped_on_public_route_counterexample:
  "sessionToken_of (sample_request ''GET'' ''/api/auth/session'' ''tok-soon'') = Some ''tok-soon'' \<and>
   session_findUnique sample_env sample_db ''tok-soon'' = Inr (Some soon_session) \<and>
   \<not> expires soon_session < now_at_expiry_check sample_env \<and>
   expires soon_session - now_at_renewal_check sample_env < 86400000 \<and>
   middleware sample_env sample_db (sample_request ''GET'' ''/api/auth/session'' ''tok-soon'')
     = (Next None, sample_db) \<and>
   expires soon_session \<noteq> plus_30_days sample_env (now_at_renewal sample_env)"
  by code_simp

text \<open>
  Claim C4, amended. For every request to a route that is not public, with a
  non-empty token whose session the lookup returns unexpired: if the remaining
  lifetime (\<open>expires\<close> minus the clock reading of the renewal test) is strictly less
  than 86 400 000 ms and the write does not throw, then in the table the middleware
  leaves, whatever the later checks decide, the session has \<open>expires\<close> equal to the
  clock reading taken for the renewal plus thirty days, the days being calendar days
  of the local time of the process; that is the clock reading plus thirty times
  86 400 000 ms whenever the local offset at the new local time is the offset at the
  clock reading, as it always is in UTC, and an hour more or less across a
  daylight-saving transition. If the remaining lifetime is one day or more, the table
  is left unchanged.
\<close>

theorem sliding_window_renewal:
  assumes "\<not> is_public (pathname request)"
    and "sessionToken_of request = Some tok" and "tok \<noteq> []"
    and "session_findUnique env db tok = Inr (Some s)"
    and "\<not> expires s < now_at_expiry_check env"
  shows "(expires s - now_at_renewal_check env < 86400000 \<and> \<not> update_throws env \<longrightarrow>
            session_findUnique env (snd (middleware_with permitted env db request)) tok =
              Inr (Some (s\<lparr>expires := plus_30_days env (now_at_renewal env)\<rparr>))) \<and>
         (localTZA env (LocalTime env (now_at_renewal env) + 30 * 86400000) False =
            localTZA env (now_at_renewal env) True \<longrightarrow>
            plus_30_days env (now_at_renewal env) = now_at_renewal env + 30 * 86400000) \<and>
         (86400000 \<le> expires s - now_at_renewal_check env \<longrightarrow>
            snd (middleware_with permitted env db request) = db)"
proof (intro conjI impI)
  assume a: "expires s - now_at_renewal_check env < 86400000 \<and> \<not> update_throws env"
  then obtain db' where r: "refresh_session env db s = Inr db'"
    using refresh_session_succeeds [OF assms(4)] by blast
  have "snd (middleware_with permitted env db request) = db'"
    by (rule middleware_with_store [OF assms r])
  then show "session_findUnique env (snd (middleware_with permitted env db request)) tok =
              Inr (Some (s\<lparr>expires := plus_30_days env (now_at_renewal env)\<rparr>))"
    using refresh_session_due [OF assms(4) _ r] a by simp
next
  assume "localTZA env (LocalTime env (now_at_renewal env) + 30 * 86400000) False =
            localTZA env (now_at_renewal env) True"
  then show "plus_30_days env (now_at_renewal env) = now_at_renewal env + 30 * 86400000"
    by (rule plus_30_days_same_offset)
next
  assume "86400000 \<le> expires s - now_at_renewal_check env"
  then have "refresh_session env db s = Inr db"
    by (simp add: refresh_session_def)
  then show "snd (middleware_with permitted env db request) = db"
    by (rule middleware_with_store [OF assms])
qed

theorem sliding_window_renewal_witness:
  "\<not> is_public (pathname (sample_request ''GET'' ''/api/books'' ''tok-soon'')) \<and>
   sessionToken_of (sample_request ''GET'' ''/api/books'' ''tok-soon'') = Some ''tok-soon'' \<and>
   ''tok-soon'' \<noteq> [] \<and>
   session_findUnique sample_env sample_db ''tok-soon'' = Inr (Some soon_session) \<and>
   \<not> expires soon_session < now_at_expiry_check sample_env \<and>
   expires soon_session - now_at_renewal_check sample_env < 86400000 \<and>
   \<not> update_throws sample_env \<and>
   localTZA sample_env (LocalTime sample_env (now_at_renewal sample_env) + 30 * 86400000) False =
     localTZA sample_env (now_at_renewal sample_env) True \<and>
   now_at_renewal sample_env + 30 * 86400000 = 1702592000001 \<and>
   session_findUnique sample_env
     (snd (middleware_with hasPermission sample_env sample_db
            (sample_request ''GET'' ''/api/books'' ''tok-soon''))) ''tok-soon''
     = Inr (Some (soon_session\<lparr>expires := 1702592000001\<rparr>)) \<and>
   \<not> is_public (pathname (sample_request ''GET'' ''/api/books'' ''tok-client'')) \<and>
   sessionToken_of (sample_request ''GET'' ''/api/books'' ''tok-client'') = Some ''tok-client'' \<and>
   ''tok-client'' \<noteq> [] \<and>
   session_findUnique sample_env sample_db ''tok-client'' = Inr (Some client_session) \<and>
   \<not> expires client_session < now_at_expiry_check sample_env \<and>
   86400000 \<le> expires client_session - now_at_renewal_check sample_env \<and>
   snd (middleware_with hasPermission sample_env sample_db
          (sample_request ''GET'' ''/api/books'' ''tok-client'')) = sample_db \<and>
   \<not> is_public (pathname (sample_request ''GET'' ''/api/books'' ''tok-paris'')) \<and>
   sessionToken_of (sample_request ''GET'' ''/api/books'' ''tok-paris'') = Some ''tok-paris'' \<and>
   ''tok-paris'' \<noteq> [] \<and>
   session_findUnique paris_env [paris_session] ''tok-paris'' = Inr (Some paris_session) \<and>
   \<not> expires paris_session < now_at_expiry_check paris_env \<and>
   expires paris_session - now_at_renewal_check paris_env < 86400000 \<and>
   \<not> update_throws paris_env \<and>
   plus_30_days paris_env (now_at_renewal paris_env) = 1699966800000 \<and>
   now_at_renewal paris_env + 30 * 86400000 = 1699963200000 \<and>
   session_findUnique paris_env
     (snd (middleware_with hasPermission paris_env [paris_session]
            (sample_request ''GET'' ''/api/books'' ''tok-paris''))) ''tok-paris''
     = Inr (Some (paris_session\<lparr>expires := 1699966800000\<rparr>))"
proof -
  let ?rq = "sample_request ''GET'' ''/api/books'' ''tok-soon''"
  let ?rc = "sample_request ''GET'' ''/api/books'' ''tok-client''"
  let ?rp = "sample_request ''GET'' ''/api/books'' ''tok-paris''"
  have h1: "\<not> is_public (pathname ?rq)" by code_simp
  have h2: "sessionToken_of ?rq = Some ''tok-soon''" by code_simp
  have h3: "''tok-soon'' \<noteq> []" by simp
  have h4: "session_findUnique sample_env sample_db ''tok-soon'' = Inr (Some soon_session)"
    by code_simp
  have h5: "\<not> expires soon_session < now_at_expiry_check sample_env" by code_simp
  have h6: "expires soon_session - now_at_renewal_check sample_env < 86400000" by code_simp
  have h7: "\<not> update_throws sample_env" by code_simp
  have h8: "localTZA sample_env (LocalTime sample_env (now_at_renewal sample_env) + 30 * 86400000)
      False = localTZA sample_env (now_at_renewal sample_env) True"
    by code_simp
  have n: "now_at_renewal sample_env + 30 * 86400000 = 1702592000001" by code_simp
  have k1: "\<not> is_public (pathname ?rc)" by code_simp
  have k2: "sessionToken_of ?rc = Some ''tok-client''" by code_simp
  have k3: "''tok-client'' \<noteq> []" by simp
  have k4: "session_findUnique sample_env sample_db ''tok-client'' = Inr (Some client_session)"
    by code_simp
  have k5: "\<not> expires client_session < now_at_expiry_check sample_env" by code_simp
  have k6: "86400000 \<le> expires client_session - now_at_renewal_check sample_env" by code_simp
  have p1: "\<not> is_public (pathname ?rp)" by code_simp
  have p2: "sessionToken_of ?rp = Some ''tok-paris''" by code_simp
  have p3: "''tok-paris'' \<noteq> []" by simp
  have p4: "session_findUnique paris_env [paris_session] ''tok-paris'' = Inr (Some paris_session)"
    by code_simp
  have p5: "\<not> expires paris_session < now_at_expiry_check paris_env" by code_simp
  have p6: "expires paris_session - now_at_renewal_check paris_env < 86400000" by code_simp
  have p7: "\<not> update_throws paris_env" by code_simp
  have p8: "plus_30_days paris_env (now_at_renewal paris_env) = 1699966800000" by code_simp
  have p9: "now_at_renewal paris_env + 30 * 86400000 = 1699963200000" by code_simp
  note t = sliding_window_renewal [OF h1 h2 h3 h4 h5, of hasPermission]
  from t h8 have e: "plus_30_days sample_env (now_at_renewal sample_env) =
      now_at_renewal sample_env + 30 * 86400000"
    by blast
  from t h6 h7 have "session_findUnique sample_env
      (snd (middleware_with hasPermission sample_env sample_db ?rq)) ''tok-soon'' =
      Inr (Some (soon_session\<lparr>expires := plus_30_days sample_env (now_at_renewal sample_env)\<rparr>))"
    by blast
  then have a: "session_findUnique sample_env
      (snd (middleware_with hasPermission sample_env sample_db ?rq)) ''tok-soon'' =
      Inr (Some (soon_session\<lparr>expires := 1702592000001\<rparr>))"
    by (simp only: e n)
  from sliding_window_renewal [OF k1 k2 k3 k4 k5, of hasPermission] k6
  have b: "snd (middleware_with hasPermission sample_env sample_db ?rc) = sample_db"
    by blast
  from sliding_window_renewal [OF p1 p2 p3 p4 p5, of hasPermission] p6 p7
  have "session_findUnique paris_env
      (snd (middleware_with hasPermission paris_env [paris_session] ?rp)) ''tok-paris'' =
      Inr (Some (paris_session\<lparr>expires := plus_30_days paris_env (now_at_renewal paris_env)\<rparr>))"
    by blast
  then have c: "session_findUnique paris_env
      (snd (middleware_with hasPermission paris_env [paris_session] ?rp)) ''tok-paris'' =
      Inr (Some (paris_session\<lparr>expires := 1699966800000\<rparr>))"
    by (simp only: p8)
  from a b c h1 h2 h3 h4 h5 h6 h7 h8 n k1 k2 k3 k4 k5 k6 p1 p2 p3 p4 p5 p6 p7 p8 p9
  show ?thesis by blast
qed

text \<open>
  Claim C6 (renewal failure). For every request that reaches the renewal with a valid
  session due for renewal, if the write that extends \<open>expires\<close> throws, the
  middleware answers 500 and does not forward the request, and the session table is
  the one it found (the single-row write is applied whole or not at all).
\<close>

theorem renewal_failure_is_500:
  assumes "\<not> is_public (pathname request)"
    and "sessionToken_of request = Some tok" and "tok \<noteq> []"
    and "session_findUnique env db tok = Inr (Some s)"
    and "\<not> expires s < now_at_expiry_check env"
    and "expires s - now_at_renewal_check env < 86400000"
    and "session_update env db (session_id s) (plus_30_days env (now_at_renewal env)) = Inl e"
  shows "middleware_with permitted env db request = (Json 500 Erreur_d_authentification, db)"
  using assms by (simp add: middleware_with_def Let_def refresh_session_def)

theorem renewal_failure_is_500_witness:
  "\<not> is_public (pathname (sample_request ''GET'' ''/api/books'' ''tok-soon'')) \<and>
   sessionToken_of (sample_request ''GET'' ''/api/books'' ''tok-soon'') = Some ''tok-soon'' \<and>
   ''tok-soon'' \<noteq> [] \<and>
   session_findUnique (sample_env\<lparr>update_throws := True\<rparr>) sample_db ''tok-soon''
     = Inr (Some soon_session) \<and>
   \<not> expires soon_session < now_at_expiry_check (sample_env\<lparr>update_throws := True\<rparr>) \<and>
   expires soon_session - now_at_renewal_check (sample_env\<lparr>update_throws := True\<rparr>) < 86400000 \<and>
   session_update (sample_env\<lparr>update_throws := True\<rparr>) sample_db (session_id soon_session)
     (plus_30_days (sample_env\<lparr>update_throws := True\<rparr>)
        (now_at_renewal (sample_env\<lparr>update_throws := True\<rparr>))) = Inl StoreFailure \<and>
   middleware_with hasPermission (sample_env\<lparr>update_throws := True\<rparr>) sample_db
     (sample_request ''GET'' ''/api/books'' ''tok-soon'')
     = (Json 500 Erreur_d_authentification, sample_db)"
proof -
  let ?rq = "sample_request ''GET'' ''/api/books'' ''tok-soon''"
  let ?env = "sample_env\<lparr>update_throws := True\<rparr>"
  have h1: "\<not> is_public (pathname ?rq)" by code_simp
  have h2: "sessionToken_of ?rq = Some ''tok-soon''" by code_simp
  have h3: "''tok-soon'' \<noteq> []" by simp
  have h4: "session_findUnique ?env sample_db ''tok-soon'' = Inr (Some soon_session)"
    by code_simp
  have h5: "\<not> expires soon_session < now_at_expiry_check ?env" by code_simp
  have h6: "expires soon_session - now_at_renewal_check ?env < 86400000" by code_simp
  have h7: "session_update ?env sample_db (session_id soon_session)
     (plus_30_days ?env (now_at_renewal ?env)) = Inl StoreFailure" by code_simp
  from renewal_failure_is_500 [OF h1 h2 h3 h4 h5 h6 h7, of hasPermission]
    h1 h2 h3 h4 h5 h6 h7
  show ?thesis by blast
qed

text \<open>
  Claim C7 (requested user id). Whenever a request to \<open>/api/users/me\<close> is
  forwarded, it was authenticated by the session \<open>s\<close> of its token, and the
  forwarded headers carry \<open>x-requested-user-id\<close> with the decimal string of the id
  of the user of \<open>s\<close>.
\<close>

theorem users_me_injects_requested_user_id:
  assumes "fst (middleware_with permitted env db request) = Next h"
    and "pathname request = ''/api/users/me''"
  shows "\<exists>tok s hs. sessionToken_of request = Some tok \<and>
           session_findUnique env db tok = Inr (Some s) \<and>
           h = Some hs \<and>
           headers_get hs ''x-requested-user-id'' = Some (toString (user_id (session_user s)))"
proof -
  have "pathname request = ''/api/users/'' @ ''me''" "CHR ''/'' \<notin> set ''me''"
    using assms(2) by simp_all
  then have ur: "\<And>u hs. user_routes u (pathname request) hs =
      Inr (headers_set ''x-requested-user-id'' (toString (user_id u)) hs)"
    using user_routes_segment [of "pathname request" "''me''"] by simp
  have np: "\<not> is_public (pathname request)"
    using users_path_not_public [of "''me''"] assms(2) by simp
  from assms(1) np show ?thesis
    by (auto simp: middleware_with_def Let_def ur headers_get_set
        split: option.splits sum.splits if_splits)
qed

theorem users_me_injects_requested_user_id_witness:
  "fst (middleware_with hasPermission sample_env sample_db
          (sample_request ''GET'' ''/api/users/me'' ''tok-client''))
     = Next (Some [(''authorization'', ''Bearer tok-client''), (''x-user-id'', ''7''),
                   (''x-user-role'', ''CLIENT''), (''x-requested-user-id'', ''7'')]) \<and>
   pathname (sample_request ''GET'' ''/api/users/me'' ''tok-client'') = ''/api/users/me'' \<and>
   (\<exists>tok s hs. sessionToken_of (sample_request ''GET'' ''/api/users/me'' ''tok-client'') = Some tok \<and>
      session_findUnique sample_env sample_db tok = Inr (Some s) \<and>
      Some [(''authorization'', ''Bearer tok-client''), (''x-user-id'', ''7''),
            (''x-user-role'', ''CLIENT''), (''x-requested-user-id'', ''7'')] = Some hs \<and>
      headers_get hs ''x-requested-user-id'' = Some (toString (user_id (session_user s))))"
proof -
  let ?rq = "sample_request ''GET'' ''/api/users/me'' ''tok-client''"
  have h1: "fst (middleware_with hasPermission sample_env sample_db ?rq)
     = Next (Some [(''authorization'', ''Bearer tok-client''), (''x-user-id'', ''7''),
                   (''x-user-role'', ''CLIENT''), (''x-requested-user-id'', ''7'')])"
    by code_simp
  have h2: "pathname ?rq = ''/api/users/me''" by code_simp
  from users_me_injects_requested_user_id [OF h1 h2] h1 h2 show ?thesis by blast
qed

text \<open>
  Claim C9 (user sub-resources). For an authenticated caller who is not ADMIN, every
  request to a path \<open>/api/users/n/sub\<close> is answered with status 403, also when
  \<open>n\<close> is the caller's own id: the self-access rule looks at the last segment only,
  and when \<open>sub\<close> is a single segment other than \<open>me\<close> and the caller's id it is
  that rule which rejects, before the permission check.
\<close>

theorem user_subresource_rejected:
  assumes "sessionToken_of request = Some tok" and "tok \<noteq> []"
    and "session_findUnique env db tok = Inr (Some s)"
    and "\<not> expires s < now_at_expiry_check env"
    and "refresh_session env db s = Inr db'"
    and "user_role (session_user s) \<noteq> ADMIN"
    and "pathname request = ''/api/users/'' @ n @ ''/'' @ sub"
  shows "(middleware env db request = (Json 403 Acces_refuse, db') \<or>
          middleware env db request = (Json 403 Permissions_insuffisantes, db')) \<and>
         (CHR ''/'' \<notin> set sub \<and> sub \<noteq> ''me'' \<and> sub \<noteq> toString (user_id (session_user s)) \<longrightarrow>
            middleware_with permitted env db request = (Json 403 Acces_refuse, db'))"
proof -
  have np: "\<not> is_public (pathname request)"
    using assms(7) users_path_not_public by simp
  note mw = middleware_with_authenticated [OF np assms(1-5)]
  have "n @ ''/'' @ sub \<noteq> ''me''"
  proof
    assume "n @ ''/'' @ sub = ''me''"
    then have "CHR ''/'' \<in> set ''me''" by (metis in_set_conv_decomp append_Cons append_Nil)
    then show False by simp
  qed
  have deny: "\<not> hasPermission (user_role (session_user s)) (pathname request) (http_method request)"
  proof
    assume "hasPermission (user_role (session_user s)) (pathname request) (http_method request)"
    then have "hasPermission (user_role (session_user s)) (''/api/users/'' @ (n @ ''/'' @ sub))
        (http_method request)"
      using assms(7) by simp
    then have "n @ ''/'' @ sub = ''me''"
      by (rule non_admin_users_path [OF assms(6)])
    with \<open>n @ ''/'' @ sub \<noteq> ''me''\<close> show False by contradiction
  qed
  have first: "middleware env db request = (Json 403 Acces_refuse, db') \<or>
          middleware env db request = (Json 403 Permissions_insuffisantes, db')"
    unfolding middleware_def mw using deny
    by (auto simp: user_routes_def Let_def split: sum.splits)
  have second: "CHR ''/'' \<notin> set sub \<and> sub \<noteq> ''me'' \<and> sub \<noteq> toString (user_id (session_user s)) \<longrightarrow>
            middleware_with permitted env db request = (Json 403 Acces_refuse, db')"
  proof
    assume a: "CHR ''/'' \<notin> set sub \<and> sub \<noteq> ''me'' \<and> sub \<noteq> toString (user_id (session_user s))"
    have "pathname request = (''/api/users/'' @ n) @ CHR ''/'' # sub"
      using assms(7) by simp
    then have "pop (split CHR ''/'' (pathname request)) = Some sub"
      using a pop_split_segment [of "CHR ''/''" sub "''/api/users/'' @ n"] by simp
    moreover have "startsWith (pathname request) ''/api/users/''"
      using assms(7) by (simp add: startsWith_def)
    ultimately have "user_routes (session_user s) (pathname request)
        (attach_user (session_user s) (headers request)) = Inl (Json 403 Acces_refuse)"
      using a assms(6) by (simp add: user_routes_def Let_def)
    then show "middleware_with permitted env db request = (Json 403 Acces_refuse, db')"
      by (simp add: mw)
  qed
  from first second show ?thesis by blast
qed

theorem user_subresource_rejected_witness:
  "sessionToken_of (sample_request ''GET'' ''/api/users/7/penalties'' ''tok-client'')
     = Some ''tok-client'' \<and>
   ''tok-client'' \<noteq> [] \<and>
   session_findUnique sample_env sample_db ''tok-client'' = Inr (Some client_session) \<and>
   \<not> expires client_session < now_at_expiry_check sample_env \<and>
   refresh_session sample_env sample_db client_session = Inr sample_db \<and>
   user_role (session_user client_session) \<noteq> ADMIN \<and>
   pathname (sample_request ''GET'' ''/api/users/7/penalties'' ''tok-client'')
     = ''/api/users/'' @ toString (user_id (session_user client_session)) @ ''/'' @ ''penalties'' \<and>
   CHR ''/'' \<notin> set ''penalties'' \<and> ''penalties'' \<noteq> ''me'' \<and>
   ''penalties'' \<noteq> toString (user_id (session_user client_session)) \<and>
   middleware sample_env sample_db (sample_request ''GET'' ''/api/users/7/penalties'' ''tok-client'')
     = (Json 403 Acces_refuse, sample_db)"
proof -
  let ?rq = "sample_request ''GET'' ''/api/users/7/penalties'' ''tok-client''"
  have h1: "sessionToken_of ?rq = Some ''tok-client''" by code_simp
  have h2: "''tok-client'' \<noteq> []" by simp
  have h3: "session_findUnique sample_env sample_db ''tok-client'' = Inr (Some client_session)"
    by code_simp
  have h4: "\<not> expires client_session < now_at_expiry_check sample_env" by code_simp
  have h5: "refresh_session sample_env sample_db client_session = Inr sample_db" by code_simp
  have h6: "user_role (session_user client_session) \<noteq> ADMIN" by code_simp
  have h7: "pathname ?rq
     = ''/api/users/'' @ toString (user_id (session_user client_session)) @ ''/'' @ ''penalties''"
    by code_simp
  have h8: "CHR ''/'' \<notin> set ''penalties''" by simp
  have h9: "''penalties'' \<noteq> ''me''" by simp
  have h10: "''penalties'' \<noteq> toString (user_id (session_user client_session))" by code_simp
  from user_subresource_rejected [OF h1 h2 h3 h4 h5 h6 h7, where permitted = hasPermission] h8 h9 h10
  have "middleware sample_env sample_db ?rq = (Json 403 Acces_refuse, sample_db)"
    by (simp add: middleware_def)
  with h1 h2 h3 h4 h5 h6 h7 h8 h9 h10 show ?thesis by blast
qed

text \<open>
  Claim C10 (renewal before authorisation). For every request with a valid session
  whose remaining lifetime is below one day and which is answered with status 403 (by
  the self-access rule or by the permission check), the table the middleware leaves
  holds the session with \<open>expires\<close> already moved to the renewal's clock reading plus
  thirty days: thirty calendar days of the local time of the process, which is the
  clock reading plus thirty times 86 400 000 ms whenever the local offset at the new
  local time is the offset at the clock reading, as it always is in UTC.
\<close>

theorem renewal_survives_403:
  assumes "sessionToken_of request = Some tok"
    and "session_findUnique env db tok = Inr (Some s)"
    and "\<not> expires s < now_at_expiry_check env"
    and "expires s - now_at_renewal_check env < 86400000"
    and "fst (middleware_with permitted env db request) = Json 403 b"
  shows "session_findUnique env (snd (middleware_with permitted env db request)) tok =
           Inr (Some (s\<lparr>expires := plus_30_days env (now_at_renewal env)\<rparr>)) \<and>
         (localTZA env (LocalTime env (now_at_renewal env) + 30 * 86400000) False =
            localTZA env (now_at_renewal env) True \<longrightarrow>
            plus_30_days env (now_at_renewal env) = now_at_renewal env + 30 * 86400000)"
proof (intro conjI impI)
  from assms(5) have np: "\<not> is_public (pathname request)"
    by (auto simp: middleware_with_def Let_def)
  from assms(5) np assms(1) have ne: "tok \<noteq> []"
    by (auto simp: middleware_with_def Let_def)
  from assms(5) np ne assms(1-3) obtain db' where r: "refresh_session env db s = Inr db'"
    by (cases "refresh_session env db s") (auto simp: middleware_with_def Let_def)
  have "snd (middleware_with permitted env db request) = db'"
    by (rule middleware_with_store [OF np assms(1) ne assms(2,3) r])
  then show "session_findUnique env (snd (middleware_with permitted env db request)) tok =
           Inr (Some (s\<lparr>expires := plus_30_days env (now_at_renewal env)\<rparr>))"
    using refresh_session_due [OF assms(2,4) r] by simp
next
  assume "localTZA env (LocalTime env (now_at_renewal env) + 30 * 86400000) False =
            localTZA env (now_at_renewal env) True"
  then show "plus_30_days env (now_at_renewal env) = now_at_renewal env + 30 * 86400000"
    by (rule plus_30_days_same_offset)
qed

theorem renewal_survives_403_witness:
  "sessionToken_of (sample_request ''GET'' ''/api/users/8'' ''tok-soon'') = Some ''tok-soon'' \<and>
   session_findUnique sample_env sample_db ''tok-soon'' = Inr (Some soon_session) \<and>
   \<not> expires soon_session < now_at_expiry_check sample_env \<and>
   expires soon_session - now_at_renewal_check sample_env < 86400000 \<and>
   localTZA sample_env (LocalTime sample_env (now_at_renewal sample_env) + 30 * 86400000) False =
     localTZA sample_env (now_at_renewal sample_env) True \<and>
   now_at_renewal sample_env + 30 * 86400000 = 1702592000001 \<and>
   fst (middleware_with hasPermission sample_env sample_db
          (sample_request ''GET'' ''/api/users/8'' ''tok-soon'')) = Json 403 Acces_refuse \<and>
   session_findUnique sample_env
     (snd (middleware_with hasPermission sample_env sample_db
            (sample_request ''GET'' ''/api/users/8'' ''tok-soon''))) ''tok-soon''
     = Inr (Some (soon_session\<lparr>expires := 1702592000001\<rparr>)) \<and>
   sessionToken_of (sample_request ''DELETE'' ''/api/books'' ''tok-soon'') = Some ''tok-soon'' \<and>
   fst (middleware_with hasPermission sample_env sample_db
          (sample_request ''DELETE'' ''/api/books'' ''tok-soon'')) = Json 403 Permissions_insuffisantes \<and>
   session_findUnique sample_env
     (snd (middleware_with hasPermission sample_env sample_db
            (sample_request ''DELETE'' ''/api/books'' ''tok-soon''))) ''tok-soon''
     = Inr (Some (soon_session\<lparr>expires := 1702592000001\<rparr>)) \<and>
   sessionToken_of (sample_request ''GET'' ''/api/users/8'' ''tok-paris'') = Some ''tok-paris'' \<and>
   session_findUnique paris_env [paris_session] ''tok-paris'' = Inr (Some paris_session) \<and>
   \<not> expires paris_session < now_at_expiry_check paris_env \<and>
   expires paris_session - now_at_renewal_check paris_env < 86400000 \<and>
   fst (middleware_with hasPermission paris_env [paris_session]
          (sample_request ''GET'' ''/api/users/8'' ''tok-paris'')) = Json 403 Acces_refuse \<and>
   plus_30_days paris_env (now_at_renewal paris_env) = 1699966800000 \<and>
   session_findUnique paris_env
     (snd (middleware_with hasPermission paris_env [paris_session]
            (sample_request ''GET'' ''/api/users/8'' ''tok-paris''))) ''tok-paris''
     = Inr (Some (paris_session\<lparr>expires := 1699966800000\<rparr>))"
proof -
  let ?r1 = "sample_request ''GET'' ''/api/users/8'' ''tok-soon''"
  let ?r2 = "sample_request ''DELETE'' ''/api/books'' ''tok-soon''"
  let ?rp = "sample_request ''GET'' ''/api/users/8'' ''tok-paris''"
  have h1: "sessionToken_of ?r1 = Some ''tok-soon''" by code_simp
  have k1: "sessionToken_of ?r2 = Some ''tok-soon''" by code_simp
  have h2: "session_findUnique sample_env sample_db ''tok-soon'' = Inr (Some soon_session)"
    by code_simp
  have h3: "\<not> expires soon_session < now_at_expiry_check sample_env" by code_simp
  have h4: "expires soon_session - now_at_renewal_check sample_env < 86400000" by code_simp
  have h5: "fst (middleware_with hasPermission sample_env sample_db ?r1) = Json 403 Acces_refuse"
    by code_simp
  have k5: "fst (middleware_with hasPermission sample_env sample_db ?r2)
      = Json 403 Permissions_insuffisantes"
    by code_simp
  have h8: "localTZA sample_env (LocalTime sample_env (now_at_renewal sample_env) + 30 * 86400000)
      False = localTZA sample_env (now_at_renewal sample_env) True"
    by code_simp
  have n: "now_at_renewal sample_env + 30 * 86400000 = 1702592000001" by code_simp
  have p1: "sessionToken_of ?rp = Some ''tok-paris''" by code_simp
  have p2: "session_findUnique paris_env [paris_session] ''tok-paris'' = Inr (Some paris_session)"
    by code_simp
  have p3: "\<not> expires paris_session < now_at_expiry_check paris_env" by code_simp
  have p4: "expires paris_session - now_at_renewal_check paris_env < 86400000" by code_simp
  have p5: "fst (middleware_with hasPermission paris_env [paris_session] ?rp) = Json 403 Acces_refuse"
    by code_simp
  have p8: "plus_30_days paris_env (now_at_renewal paris_env) = 1699966800000" by code_simp
  note t1 = renewal_survives_403 [OF h1 h2 h3 h4 h5]
  note t2 = renewal_survives_403 [OF k1 h2 h3 h4 k5]
  note t3 = renewal_survives_403 [OF p1 p2 p3 p4 p5]
  from t1 h8 have e: "plus_30_days sample_env (now_at_renewal sample_env) =
      now_at_renewal sample_env + 30 * 86400000"
    by blast
  from t1 have "session_findUnique sample_env
      (snd (middleware_with hasPermission sample_env sample_db ?r1)) ''tok-soon'' =
      Inr (Some (soon_session\<lparr>expires := plus_30_days sample_env (now_at_renewal sample_env)\<rparr>))"
    by blast
  then have a: "session_findUnique sample_env
      (snd (middleware_with hasPermission sample_env sample_db ?r1)) ''tok-soon'' =
      Inr (Some (soon_session\<lparr>expires := 1702592000001\<rparr>))"
    by (simp only: e n)
  from t2 have "session_findUnique sample_env
      (snd (middleware_with hasPermission sample_env sample_db ?r2)) ''tok-soon'' =
      Inr (Some (soon_session\<lparr>expires := plus_30_days sample_env (now_at_renewal sample_env)\<rparr>))"
    by blast
  then have b: "session_findUnique sample_env
      (snd (middleware_with hasPermission sample_env sample_db ?r2)) ''tok-soon'' =
      Inr (Some (soon_session\<lparr>expires := 1702592000001\<rparr>))"
    by (simp only: e n)
  from t3 have "session_findUnique paris_env
      (snd (middleware_with hasPermission paris_env [paris_session] ?rp)) ''tok-paris'' =
      Inr (Some (paris_session\<lparr>expires := plus_30_days paris_env (now_at_renewal paris_env)\<rparr>))"
    by blast
  then have c: "session_findUnique paris_env
      (snd (middleware_with hasPermission paris_env [paris_session] ?rp)) ''tok-paris'' =
      Inr (Some (paris_session\<lparr>expires := 1699966800000\<rparr>))"
    by (simp only: p8)
  from a b c h1 k1 h2 h3 h4 h5 k5 h8 n p1 p2 p3 p4 p5 p8 show ?thesis by blast
qed

end
